theory Spec2Isabelle
  imports Complex_Main
begin

section \<open>Variational Gaussian-mixture engine (models/gmm.py)\<close>

text \<open>
  Tensor entries are modelled as real numbers: every statement below is about the exact
  arithmetic the code denotes, not about rounding. A two-dimensional tensor of shape
  \<open>(N, K)\<close> is its column count together with its list of \<open>N\<close> rows, so that the shape
  \<open>(0, K)\<close> still knows \<open>K\<close>, as a torch tensor does. The operations of the array library
  are given on lists; they agree with torch on operands of matching shapes, which the
  theorems assume through \<open>has_shape\<close>.
\<close>

datatype tensor2 = Tensor2 (ncols: nat) (rows: "real list list")

definition nrows :: "tensor2 \<Rightarrow> nat" where
  "nrows t = length (rows t)"

definition has_shape :: "tensor2 \<Rightarrow> nat \<Rightarrow> nat \<Rightarrow> bool" where
  "has_shape t n k \<longleftrightarrow> length (rows t) = n \<and> ncols t = k \<and> list_all (\<lambda>r. length r = k) (rows t)"

definition has_shape3 :: "real list list list \<Rightarrow> nat \<Rightarrow> nat \<Rightarrow> nat \<Rightarrow> bool" where
  "has_shape3 b k d e \<longleftrightarrow>
     length b = k \<and> list_all (\<lambda>m. length m = d \<and> list_all (\<lambda>r. length r = e) m) b"

text \<open>\<open>x.shape\<close> of a two-dimensional tensor.\<close>

definition shape :: "tensor2 \<Rightarrow> nat \<times> nat" where
  "shape t = (nrows t, ncols t)"

subsection \<open>The array operations the module calls\<close>

text \<open>\<open>torch.einsum('nd,kd->nk', x, a)\<close>: entry \<open>(n, k)\<close> contracts row \<open>n\<close> of \<open>x\<close> with row \<open>k\<close> of \<open>a\<close>.\<close>

definition dot :: "real list \<Rightarrow> real list \<Rightarrow> real" where
  "dot u v = sum_list (map2 (*) u v)"

definition einsum_nd_kd_nk :: "tensor2 \<Rightarrow> tensor2 \<Rightarrow> tensor2" where
  "einsum_nd_kd_nk x a = Tensor2 (nrows a) (map (\<lambda>xn. map (\<lambda>ak. dot xn ak) (rows a)) (rows x))"

text \<open>\<open>torch.einsum('nd,kde,ne->nk', x, b, y)\<close>: entry \<open>(n, k)\<close> is the bilinear form of matrix
  \<open>k\<close> of \<open>b\<close> on row \<open>n\<close> of \<open>x\<close> and row \<open>n\<close> of \<open>y\<close>.\<close>

definition bilinear :: "real list \<Rightarrow> real list list \<Rightarrow> real list \<Rightarrow> real" where
  "bilinear xn m yn =
     sum_list (map2 (\<lambda>xd md. sum_list (map2 (\<lambda>mde ye. xd * mde * ye) md yn)) xn m)"

definition einsum_nd_kde_ne_nk :: "tensor2 \<Rightarrow> real list list list \<Rightarrow> tensor2 \<Rightarrow> tensor2" where
  "einsum_nd_kde_ne_nk x b y =
     Tensor2 (length b) (map (\<lambda>(xn, yn). map (\<lambda>bk. bilinear xn bk yn) b) (zip (rows x) (rows y)))"

text \<open>Elementwise sum of two \<open>(N, K)\<close> tensors, and the two broadcasts of a length-\<open>K\<close>
  vector against an \<open>(N, K)\<close> tensor that the module uses.\<close>

definition tensor_add :: "tensor2 \<Rightarrow> tensor2 \<Rightarrow> tensor2" where
  "tensor_add a b = Tensor2 (ncols a) (map2 (map2 (+)) (rows a) (rows b))"

definition tensor_sub_vec :: "tensor2 \<Rightarrow> real list \<Rightarrow> tensor2" where
  "tensor_sub_vec a v = Tensor2 (ncols a) (map (\<lambda>r. map2 (-) r v) (rows a))"

definition vec_add_tensor :: "real list \<Rightarrow> tensor2 \<Rightarrow> tensor2" where
  "vec_add_tensor v a = Tensor2 (ncols a) (map (\<lambda>r. map2 (+) v r) (rows a))"

text \<open>\<open>t.softmax(-1)\<close>: each row is exponentiated and divided by the sum of its exponentials.\<close>

definition softmax :: "real list \<Rightarrow> real list" where
  "softmax v = map (\<lambda>z. exp z / sum_list (map exp v)) v"

definition softmax_last :: "tensor2 \<Rightarrow> tensor2" where
  "softmax_last a = Tensor2 (ncols a) (map softmax (rows a))"

text \<open>\<open>t.sum(0)\<close>: the column sums, a vector of length \<open>K\<close> (zeros when there is no row).\<close>

definition sum0 :: "tensor2 \<Rightarrow> real list" where
  "sum0 t = foldr (map2 (+)) (rows t) (replicate (ncols t) 0)"

subsection \<open>Distribution objects and the external interface\<close>

text \<open>A \<open>td.Dirichlet\<close> object is its concentration vector.\<close>

record dirichlet =
  concentration :: "real list"

text \<open>A \<open>NaturalGMMPrior\<close> pairs a mixing prior with a stacked component prior. The
  component prior's class \<open>NaturalNormalWishart\<close> is not part of the module: it is the
  type parameter \<open>'nw\<close>.\<close>

record 'nw NaturalGMMPrior =
  mixing_prior :: dirichlet
  component_prior :: "'nw"

text \<open>
  What the module imports and does not define: \<open>torch.digamma\<close>, drawing \<open>n\<close> samples from a
  Dirichlet (threading the generator state \<open>'g\<close>), the two methods of
  \<open>NaturalNormalWishart\<close>, and \<open>natural_gmm.init\<close> with its keyword arguments in the order
  \<open>K, D, alpha_scale, nu_scale, mean_scale, cov_scale, dof_init\<close>.
\<close>

record ('nw, 'g) externals =
  torch_digamma :: "real \<Rightarrow> real"
  dirichlet_sample :: "real list \<Rightarrow> nat \<Rightarrow> 'g \<Rightarrow> tensor2 \<times> 'g"
  nw_expected_stats :: "'nw \<Rightarrow> tensor2 \<times> real list list list \<times> real list"
  nw_posterior :: "'nw \<Rightarrow> tensor2 \<Rightarrow> tensor2 \<Rightarrow> 'nw"
  natural_gmm_init :: "nat \<Rightarrow> nat \<Rightarrow> real \<Rightarrow> real \<Rightarrow> real \<Rightarrow> real \<Rightarrow> real \<Rightarrow> 'nw NaturalGMMPrior"

text \<open>Modelled from the spec: \<open>NaturalGMMPrior.from_priors\<close> is missing from the sources; it
  wraps a fitted posterior pair as a prior container with no transformation of values.\<close>

definition from_priors :: "dirichlet \<Rightarrow> 'nw \<Rightarrow> 'nw NaturalGMMPrior" where
  "from_priors mixing_posterior component_posteriors =
     \<lparr>mixing_prior = mixing_posterior, component_prior = component_posteriors\<rparr>"

subsection \<open>E-step and M-step\<close>

definition compute_expec_log_lik :: "('nw, 'g) externals \<Rightarrow> tensor2 \<Rightarrow> 'nw \<Rightarrow> tensor2" where
  "compute_expec_log_lik E x component_posteriors =
     (case nw_expected_stats E component_posteriors of
        (expec_eta1, expec_eta2, expec_log_norm) \<Rightarrow>
          let prod1 = einsum_nd_kd_nk x expec_eta1;
              prod2 = einsum_nd_kde_ne_nk x expec_eta2 x
          in tensor_sub_vec (tensor_add prod1 prod2) expec_log_norm)"

definition compute_expct_log_pi :: "('nw, 'g) externals \<Rightarrow> dirichlet \<Rightarrow> real list" where
  "compute_expct_log_pi E mixing_posterior =
     (let alpha_k = concentration mixing_posterior
      in map (\<lambda>a. torch_digamma E a - torch_digamma E (sum_list alpha_k)) alpha_k)"

definition e_step :: "('nw, 'g) externals \<Rightarrow> tensor2 \<Rightarrow> dirichlet \<Rightarrow> 'nw \<Rightarrow> tensor2" where
  "e_step E x mixing_posterior component_posteriors =
     (let expec_log_lik = compute_expec_log_lik E x component_posteriors;
          expct_log_pi = compute_expct_log_pi E mixing_posterior;
          r_nk = softmax_last (vec_add_tensor expct_log_pi expec_log_lik)
      in r_nk)"

definition m_step ::
  "('nw, 'g) externals \<Rightarrow> tensor2 \<Rightarrow> tensor2 \<Rightarrow> dirichlet \<Rightarrow> 'nw \<Rightarrow> dirichlet \<times> 'nw" where
  "m_step E x r_nk mixing_prior' component_prior' =
     (let N_k = sum0 r_nk;
          mixing_posterior = \<lparr>concentration = map2 (+) (concentration mixing_prior') N_k\<rparr>;
          component_posteriors = nw_posterior E component_prior' x r_nk
      in (mixing_posterior, component_posteriors))"

subsection \<open>The drivers\<close>

text \<open>
  The interpreter's exceptions that concern the two drivers. No statement of the module
  reads a name that is bound nowhere, so the model never produces \<open>NameError\<close>; the
  constructor is there for the statements about it.
\<close>

datatype error =
    NameError string
  | UnboundLocalError string
  | ValueError_too_many_values nat
  | ValueError_not_enough_values nat nat
  | ZeroDivisionError

text \<open>
  The state of the loop of \<open>run_vem\<close>: \<open>r_nk\<close> and the two posterior variables, which are
  unbound until the first pass through the body.
\<close>

fun vem_loop ::
  "('nw, 'g) externals \<Rightarrow> tensor2 \<Rightarrow> 'nw NaturalGMMPrior \<Rightarrow> nat \<Rightarrow>
   tensor2 \<times> (dirichlet \<times> 'nw) option \<Rightarrow> tensor2 \<times> (dirichlet \<times> 'nw) option" where
  "vem_loop E x gmm 0 s = s"
| "vem_loop E x gmm (Suc i) (r_nk, posteriors) =
     (case m_step E x r_nk (mixing_prior gmm) (component_prior gmm) of
        (mixing_posterior, component_posteriors) \<Rightarrow>
          vem_loop E x gmm i
            (e_step E x mixing_posterior component_posteriors,
             Some (mixing_posterior, component_posteriors)))"

text \<open>
  \<open>run_vem\<close>: \<open>range(n_iter)\<close> is empty for \<open>n_iter \<le> 0\<close>; the division \<open>0.05 / K\<close> raises for
  \<open>K = 0\<close>; the return statement reads \<open>mixing_posterior\<close> first. The result carries the
  generator state after the run.
\<close>

definition run_vem ::
  "('nw, 'g) externals \<Rightarrow> tensor2 \<Rightarrow> nat \<Rightarrow> int \<Rightarrow> 'g \<Rightarrow> error + ('nw NaturalGMMPrior \<times> 'g)" where
  "run_vem E x K n_iter g =
     (case shape x of (N, D) \<Rightarrow>
      case dirichlet_sample E (replicate K 1) N g of (r_nk, g') \<Rightarrow>
        if K = 0 then Inl ZeroDivisionError
        else
          let gmm = natural_gmm_init E K D (0.05 / real K) 0.5 0 (real D + 0.5) (real D + 0.5)
          in (case vem_loop E x gmm (nat n_iter) (r_nk, None) of
                (r_nk', None) \<Rightarrow> Inl (UnboundLocalError ''mixing_posterior'')
              | (r_nk', Some (mixing_posterior, component_posteriors)) \<Rightarrow>
                  Inr (from_priors mixing_posterior component_posteriors, g')))"

text \<open>
  Unpacking a two-dimensional tensor into two targets iterates over its rows and needs
  exactly two of them.
\<close>

definition unpack2 :: "tensor2 \<Rightarrow> error + (real list \<times> real list)" where
  "unpack2 t =
     (case rows t of
        [a, b] \<Rightarrow> Inr (a, b)
      | [] \<Rightarrow> Inl (ValueError_not_enough_values 2 0)
      | [a] \<Rightarrow> Inl (ValueError_not_enough_values 2 1)
      | _ \<Rightarrow> Inl (ValueError_too_many_values 2))"

datatype py_none = PyNone

text \<open>
  \<open>inference\<close>: the last statement binds \<open>r_nk_new\<close> and \<open>pi\<close> (written \<open>pi'\<close> here,
  the name \<open>pi\<close> being the circle constant) by unpacking the result of \<open>e_step\<close>; the
  body ends there, so a call that gets this far returns \<open>None\<close>.
\<close>

definition inference ::
  "('nw, 'g) externals \<Rightarrow> tensor2 \<Rightarrow> nat \<Rightarrow> 'g \<Rightarrow> error + (py_none \<times> 'g)" where
  "inference E x K g =
     (case shape x of (N, D) \<Rightarrow>
      case dirichlet_sample E (replicate K 1) N g of (r_nk, g') \<Rightarrow>
        if K = 0 then Inl ZeroDivisionError
        else
          let gmm = natural_gmm_init E K D (0.05 / real K) 0.5 0 (real D + 0.5) (real D + 0.5)
          in case m_step E x r_nk (mixing_prior gmm) (component_prior gmm) of
               (mixing_posterior, component_posteriors) \<Rightarrow>
                 (case unpack2 (e_step E x mixing_posterior component_posteriors) of
                    Inl e \<Rightarrow> Inl e
                  | Inr (r_nk_new, pi') \<Rightarrow> Inr (PyNone, g')))"

subsection \<open>The formulas of the textbook derivation\<close>

text \<open>
  The argument of the softmax in \<open>e_step\<close>, named so that theorems can speak of it.
\<close>

definition e_step_logits :: "('nw, 'g) externals \<Rightarrow> tensor2 \<Rightarrow> dirichlet \<Rightarrow> 'nw \<Rightarrow> tensor2" where
  "e_step_logits E x mp cp =
     vec_add_tensor (compute_expct_log_pi E mp) (compute_expec_log_lik E x cp)"

text \<open>
  The two quantities as the specification writes them, entry by entry: the expected
  log-likelihood of data point \<open>n\<close> under component \<open>k\<close> (Bishop 10.64) and the expected
  log mixing weight of component \<open>k\<close> (Bishop 10.66). They are compared with the code's
  einsum computation below.
\<close>

definition expec_log_lik_spec ::
  "tensor2 \<Rightarrow> tensor2 \<Rightarrow> real list list list \<Rightarrow> real list \<Rightarrow> nat \<Rightarrow> nat \<Rightarrow> nat \<Rightarrow> real" where
  "expec_log_lik_spec x eta1 eta2 log_norm D n k =
     (\<Sum>d<D. rows x ! n ! d * rows eta1 ! k ! d)
     + (\<Sum>d<D. \<Sum>e<D. rows x ! n ! d * eta2 ! k ! d ! e * rows x ! n ! e)
     - log_norm ! k"

definition expct_log_pi_spec :: "(real \<Rightarrow> real) \<Rightarrow> real list \<Rightarrow> nat \<Rightarrow> real" where
  "expct_log_pi_spec dg alpha k = dg (alpha ! k) - dg (\<Sum>j<length alpha. alpha ! j)"

text \<open>
  The responsibilities after \<open>i\<close> sweeps, as the specification describes the loop: each
  sweep is an M-step on the current responsibilities and the fixed prior, then an E-step
  on the posteriors it produced.
\<close>

fun vem_r ::
  "('nw, 'g) externals \<Rightarrow> tensor2 \<Rightarrow> 'nw NaturalGMMPrior \<Rightarrow> tensor2 \<Rightarrow> nat \<Rightarrow> tensor2" where
  "vem_r E x gmm r0 0 = r0"
| "vem_r E x gmm r0 (Suc i) =
     (case m_step E x (vem_r E x gmm r0 i) (mixing_prior gmm) (component_prior gmm) of
        (mixing_posterior, component_posteriors) \<Rightarrow>
          e_step E x mixing_posterior component_posteriors)"

subsection \<open>A stand-in for the external interface, and sample inputs\<close>

text \<open>
  To run the drivers on concrete data the external functions need values. This stand-in
  keeps the shapes of the real ones: a component prior is represented by its expected
  statistics, the sampler returns the mean of the Dirichlet for every row and counts the
  draws in the generator state, and \<open>init\<close> builds \<open>K\<close> identical components.
\<close>

definition test_externals :: "(tensor2 \<times> real list list list \<times> real list, nat) externals" where
  "test_externals =
     \<lparr>torch_digamma = (\<lambda>a. a),
      dirichlet_sample =
        (\<lambda>alpha n g.
           (Tensor2 (length alpha) (replicate n (map (\<lambda>a. a / sum_list alpha) alpha)), Suc g)),
      nw_expected_stats = (\<lambda>cp. cp),
      nw_posterior = (\<lambda>cp x r_nk. cp),
      natural_gmm_init =
        (\<lambda>K D alpha_scale nu_scale mean_scale cov_scale dof_init.
           \<lparr>mixing_prior = \<lparr>concentration = replicate K alpha_scale\<rparr>,
            component_prior =
              (Tensor2 D (replicate K (replicate D mean_scale)),
               replicate K (replicate D (replicate D (- nu_scale))),
               replicate K dof_init)\<rparr>)\<rparr>"

definition x_two_rows :: tensor2 where
  "x_two_rows = Tensor2 1 [[1], [2]]"

definition x_three_rows :: tensor2 where
  "x_three_rows = Tensor2 1 [[0], [1], [2]]"

definition test_component_posteriors :: "tensor2 \<times> real list list list \<times> real list" where
  "test_component_posteriors = (Tensor2 1 [[0], [1]], [[[- 1]], [[- 2]]], [0, 1])"

definition test_mixing_posterior :: dirichlet where
  "test_mixing_posterior = \<lparr>concentration = [1, 3]\<rparr>"

definition test_r_nk :: tensor2 where
  "test_r_nk = Tensor2 2 [[1 / 4, 3 / 4], [1 / 2, 1 / 2]]"

section \<open>Conditional structural causal model (conditional_sem.py)\<close>

subsection \<open>Closed-form transforms\<close>

text \<open>
  The transforms of the distribution library that the model builds from constants:
  \<open>AffineTransform(loc, scale)\<close>, \<open>ExpTransform()\<close> and \<open>ComposeTransform\<close> of a list of
  them. Calling a composition applies its parts in order; its inverse applies the
  inverses of the parts in reverse order. The logarithm is the real one, so the inverse
  of the exponential is meaningful on positive arguments only.
\<close>

datatype transform =
    AffineTransform real real
  | ExpTransform
  | ComposeTransform "transform list"

fun transform_call :: "transform \<Rightarrow> real \<Rightarrow> real" where
  "transform_call (AffineTransform loc scale) x = loc + scale * x"
| "transform_call ExpTransform x = exp x"
| "transform_call (ComposeTransform parts) x = fold transform_call parts x"

fun transform_inv :: "transform \<Rightarrow> real \<Rightarrow> real" where
  "transform_inv (AffineTransform loc scale) y = (y - loc) / scale"
| "transform_inv ExpTransform y = ln y"
| "transform_inv (ComposeTransform parts) y = fold transform_inv (rev parts) y"

text \<open>A transform applied to a tensor acts on every entry.\<close>

definition tensor_map :: "(real \<Rightarrow> real) \<Rightarrow> tensor2 \<Rightarrow> tensor2" where
  "tensor_map f t = Tensor2 (ncols t) (map (map f) (rows t))"

text \<open>\<open>torch.cat([a, b], 1)\<close> of two tensors with the same number of rows.\<close>

definition cat1 :: "tensor2 \<Rightarrow> tensor2 \<Rightarrow> tensor2" where
  "cat1 a b = Tensor2 (ncols a + ncols b) (map2 (@) (rows a) (rows b))"

subsection \<open>Flows and distribution objects\<close>

text \<open>
  A flow is a closed-form transform, a module of learned splines (type \<open>'s\<close>), a
  composition of flows, a conditional affine transform around a context network (type
  \<open>'c\<close>, with its event dimension), or a conditional transform conditioned on a context
  tensor. Distribution objects are the expressions the model builds; the probabilistic
  runtime that draws from them is not part of the module.
\<close>

datatype ('s, 'c) flow =
    Fixed transform
  | ComposeTransformModule "'s list"
  | ComposeFlow "('s, 'c) flow list"
  | ConditionalAffineTransform 'c nat

datatype ('s, 'c) distribution =
    Bernoulli "real list"
  | Normal "real list" "real list"
  | ToEvent "('s, 'c) distribution" nat
  | TransformedDistribution "('s, 'c) distribution" "('s, 'c) flow"
  | ConditionalTransformedDistribution "('s, 'c) distribution" "('s, 'c) flow list"
  | Condition "('s, 'c) distribution" tensor2

subsection \<open>The model object\<close>

text \<open>
  The attributes that the base class \<open>BaseVISEM\<close> supplies and the structural prior
  graph reads, and the attributes that the constructor of \<open>ConditionalVISEM\<close> adds for
  the three flows. The decoder, the encoder and the latent encoder are not read by the
  structural prior graph and are left out.
\<close>

record BaseVISEM =
  sex_logits :: "real list"
  age_base_loc :: "real list"
  age_base_scale :: "real list"
  ventricle_volume_base_loc :: "real list"
  ventricle_volume_base_scale :: "real list"
  brain_volume_base_loc :: "real list"
  brain_volume_base_scale :: "real list"

record ('s, 'c) ConditionalVISEM = BaseVISEM +
  age_flow_components :: "('s, 'c) flow"
  age_flow_lognorm :: transform
  age_flow_constraint_transforms :: transform
  age_flow_transforms :: "('s, 'c) flow"
  ventricle_volume_flow_components :: "('s, 'c) flow"
  ventricle_volume_flow_lognorm :: transform
  ventricle_volume_flow_constraint_transforms :: transform
  ventricle_volume_flow_transforms :: "('s, 'c) flow list"
  brain_volume_flow_components :: "('s, 'c) flow"
  brain_volume_flow_lognorm :: transform
  brain_volume_flow_constraint_transforms :: transform
  brain_volume_flow_transforms :: "('s, 'c) flow list"

text \<open>
  \<open>__init__\<close>: \<open>base\<close> is the object after \<open>super().__init__(**kwargs)\<close>; \<open>spline\<close> is the
  freshly created \<open>Spline(1)\<close>, and the two networks are the freshly created \<open>DenseNN\<close>
  objects of the volume flows.
\<close>

definition ConditionalVISEM_init ::
  "BaseVISEM \<Rightarrow> 's \<Rightarrow> 'c \<Rightarrow> 'c \<Rightarrow> ('s, 'c) ConditionalVISEM" where
  "ConditionalVISEM_init base spline ventricle_volume_net brain_volume_net =
     (let age_components = ComposeTransformModule [spline];
          age_lognorm = AffineTransform 0 1;
          age_constraint = ComposeTransform [age_lognorm, ExpTransform];
          ventricle_components = ConditionalAffineTransform ventricle_volume_net 0;
          ventricle_lognorm = AffineTransform 0 1;
          ventricle_constraint = ComposeTransform [ventricle_lognorm, ExpTransform];
          brain_components = ConditionalAffineTransform brain_volume_net 0;
          brain_lognorm = AffineTransform 0 1;
          brain_constraint = ComposeTransform [brain_lognorm, ExpTransform]
      in BaseVISEM.extend base
           (ConditionalVISEM.fields
              age_components age_lognorm age_constraint
              (ComposeFlow [age_components, Fixed age_constraint])
              ventricle_components ventricle_lognorm ventricle_constraint
              [ventricle_components, Fixed ventricle_constraint]
              brain_components brain_lognorm brain_constraint
              [brain_components, Fixed brain_constraint]))"

subsection \<open>The structural prior graph\<close>

text \<open>
  \<open>pyro.sample(name, dist)\<close> asks the runtime for a value of the site and records the
  site. The runtime is the parameter \<open>S\<close>, which may depend on the site name, the
  distribution and its own state \<open>'g\<close>; the record of a run is the list of its sites with
  their distributions and values.
\<close>

type_synonym ('s, 'c) trace = "(string \<times> ('s, 'c) distribution \<times> tensor2) list"

definition pyro_sample ::
  "(string \<Rightarrow> ('s, 'c) distribution \<Rightarrow> 'g \<Rightarrow> tensor2 \<times> 'g) \<Rightarrow> string \<Rightarrow> ('s, 'c) distribution \<Rightarrow>
   ('s, 'c) trace \<times> 'g \<Rightarrow> tensor2 \<times> ('s, 'c) trace \<times> 'g" where
  "pyro_sample S name d st =
     (case st of (tr, g) \<Rightarrow>
        case S name d g of (v, g') \<Rightarrow> (v, (tr @ [(name, d, v)], g')))"

definition pgm_model ::
  "('s, 'c) ConditionalVISEM \<Rightarrow> (string \<Rightarrow> ('s, 'c) distribution \<Rightarrow> 'g \<Rightarrow> tensor2 \<times> 'g) \<Rightarrow>
   ('s, 'c) trace \<times> 'g \<Rightarrow> (tensor2 \<times> tensor2 \<times> tensor2 \<times> tensor2) \<times> ('s, 'c) trace \<times> 'g" where
  "pgm_model self S st0 =
     (let sex_dist = ToEvent (Bernoulli (sex_logits self)) 1
      in case pyro_sample S ''sex'' sex_dist st0 of (sex, st1) \<Rightarrow>
      let age_base_dist = ToEvent (Normal (age_base_loc self) (age_base_scale self)) 1;
          age_dist = TransformedDistribution age_base_dist (age_flow_transforms self)
      in case pyro_sample S ''age'' age_dist st1 of (age, st2) \<Rightarrow>
      let age' = tensor_map (transform_inv (age_flow_constraint_transforms self)) age;
          context = cat1 sex age';
          ventricle_volume_base_dist =
            ToEvent (Normal (ventricle_volume_base_loc self) (ventricle_volume_base_scale self)) 1;
          ventricle_volume_dist =
            Condition (ConditionalTransformedDistribution ventricle_volume_base_dist
                         (ventricle_volume_flow_transforms self)) context
      in case pyro_sample S ''ventricle_volume'' ventricle_volume_dist st2 of
           (ventricle_volume, st3) \<Rightarrow>
      let brain_volume_base_dist =
            ToEvent (Normal (brain_volume_base_loc self) (brain_volume_base_scale self)) 1;
          brain_volume_dist =
            Condition (ConditionalTransformedDistribution brain_volume_base_dist
                         (brain_volume_flow_transforms self)) context
      in case pyro_sample S ''brain_volume'' brain_volume_dist st3 of
           (brain_volume, st4) \<Rightarrow>
             ((age, sex, ventricle_volume, brain_volume), st4))"

text \<open>The distribution and the value recorded for a site of a trace.\<close>

definition site_dist :: "('s, 'c) trace \<Rightarrow> string \<Rightarrow> ('s, 'c) distribution option" where
  "site_dist tr name = map_option fst (map_of tr name)"

definition site_value :: "('s, 'c) trace \<Rightarrow> string \<Rightarrow> tensor2 option" where
  "site_value tr name = map_option snd (map_of tr name)"

subsection \<open>The model registry\<close>

text \<open>
  \<open>MODEL_REGISTRY\<close> is a dictionary from class names to classes, owned by the module of
  the base class. A class is identified by its defining module and its \<open>__name__\<close>.
  Loading \<open>conditional_sem\<close> runs the assignment at the end of the module; constructing
  an instance runs \<open>__init__\<close>, which does not mention the registry.
\<close>

datatype model_class = ModelClass (class_module: string) (class_name: string)

type_synonym registry = "string \<rightharpoonup> model_class"

definition ConditionalVISEM_class :: model_class where
  "ConditionalVISEM_class =
     ModelClass ''experiments.medical.ukbb.sem_vi.conditional_sem'' ''ConditionalVISEM''"

definition load_conditional_sem :: "registry \<Rightarrow> registry" where
  "load_conditional_sem MODEL_REGISTRY =
     MODEL_REGISTRY(class_name ConditionalVISEM_class \<mapsto> ConditionalVISEM_class)"

text \<open>
  Modelled from the spec: the constructor of the base class is missing from the sources;
  the registry is populated at module load time only, so construction passes it on
  unchanged.
\<close>

definition ConditionalVISEM_new ::
  "BaseVISEM \<Rightarrow> 's \<Rightarrow> 'c \<Rightarrow> 'c \<Rightarrow> registry \<Rightarrow> ('s, 'c) ConditionalVISEM \<times> registry" where
  "ConditionalVISEM_new base spline ventricle_volume_net brain_volume_net MODEL_REGISTRY =
     (ConditionalVISEM_init base spline ventricle_volume_net brain_volume_net, MODEL_REGISTRY)"

text \<open>Sample values for the model object.\<close>

definition test_base :: BaseVISEM where
  "test_base =
     \<lparr>sex_logits = [0], age_base_loc = [0], age_base_scale = [1],
      ventricle_volume_base_loc = [0], ventricle_volume_base_scale = [1],
      brain_volume_base_loc = [0], brain_volume_base_scale = [1]\<rparr>"

text \<open>
  A runtime that returns the given value at the site \<open>sex\<close> and the age \<open>1\<close> (hence the
  unconstrained age \<open>0\<close>) everywhere else, counting the draws; and a registry that holds
  another model before the module is loaded.
\<close>

definition test_sampler ::
  "real \<Rightarrow> string \<Rightarrow> (unit, unit) distribution \<Rightarrow> nat \<Rightarrow> tensor2 \<times> nat" where
  "test_sampler s name d g = (if name = ''sex'' then Tensor2 1 [[s]] else Tensor2 1 [[1]], Suc g)"

definition test_registry :: registry where
  "test_registry =
     [''IndependentVISEM'' \<mapsto>
        ModelClass ''experiments.medical.ukbb.sem_vi.independent_sem'' ''IndependentVISEM'']"

section \<open>Properties of the mixture engine\<close>

subsection \<open>Sums over lists and sums over indices\<close>

lemma sum_list_nth_lessThan: "sum_list (xs::real list) = (\<Sum>i<length xs. xs ! i)"
  by (simp add: sum_list_sum_nth atLeast0LessThan)

lemma dot_nth:
  "length u = d \<Longrightarrow> length v = d \<Longrightarrow> dot u v = (\<Sum>i<d. u ! i * v ! i)"
  by (simp add: dot_def sum_list_nth_lessThan)

lemma bilinear_nth:
  assumes "length xn = d" and "length m = d" and "list_all (\<lambda>r. length r = e) m"
    and "length yn = e"
  shows "bilinear xn m yn = (\<Sum>i<d. \<Sum>j<e. xn ! i * m ! i ! j * yn ! j)"
proof -
  have row: "length (m ! i) = e" if "i < d" for i
    using assms that by (simp add: list_all_length)
  have "bilinear xn m yn
        = (\<Sum>i<d. sum_list (map2 (\<lambda>mde ye. xn ! i * mde * ye) (m ! i) yn))"
    using assms by (simp add: bilinear_def sum_list_nth_lessThan)
  also have "\<dots> = (\<Sum>i<d. \<Sum>j<e. xn ! i * m ! i ! j * yn ! j)"
    using assms row by (intro sum.cong refl) (simp add: sum_list_nth_lessThan)
  finally show ?thesis .
qed

lemma length_foldr_add:
  "list_all (\<lambda>r. length r = k) rs \<Longrightarrow> length (foldr (map2 (+)) rs (replicate k (0::real))) = k"
  by (induction rs) auto

lemma nth_foldr_add:
  "list_all (\<lambda>r. length r = k) rs \<Longrightarrow> j < k \<Longrightarrow>
   foldr (map2 (+)) rs (replicate k (0::real)) ! j = (\<Sum>i<length rs. rs ! i ! j)"
proof (induction rs)
  case Nil
  then show ?case by simp
next
  case (Cons r rs)
  then have len: "length (foldr (map2 (+)) rs (replicate k (0::real))) = k"
    by (simp add: length_foldr_add)
  have "(\<Sum>i<Suc (length rs). (r # rs) ! i ! j)
          = (r # rs) ! 0 ! j + (\<Sum>i<length rs. (r # rs) ! Suc i ! j)"
    by (rule sum.lessThan_Suc_shift)
  then have "(\<Sum>i<length (r # rs). (r # rs) ! i ! j) = r ! j + (\<Sum>i<length rs. rs ! i ! j)"
    by simp
  with Cons len show ?case by simp
qed

lemma length_sum0: "has_shape t n k \<Longrightarrow> length (sum0 t) = k"
  by (simp add: has_shape_def sum0_def length_foldr_add)

lemma nth_sum0: "has_shape t n k \<Longrightarrow> j < k \<Longrightarrow> sum0 t ! j = (\<Sum>i<n. rows t ! i ! j)"
  using nth_foldr_add [of k "rows t" j] by (auto simp add: has_shape_def sum0_def)

subsection \<open>Softmax\<close>

lemma sum_list_map_divide:
  "sum_list (map (\<lambda>z. f z / (c::real)) v) = sum_list (map f v) / c"
  by (induction v) (simp_all add: add_divide_distrib)

lemma sum_list_exp_pos: "v \<noteq> [] \<Longrightarrow> 0 < sum_list (map exp (v::real list))"
proof (cases v)
  case Nil
  assume "v \<noteq> []"
  with Nil show ?thesis by simp
next
  case (Cons a w)
  have "0 \<le> sum_list (map exp w)"
    by (rule sum_list_nonneg) auto
  moreover have "0 < exp a"
    by simp
  ultimately show ?thesis
    using Cons by (simp add: add_pos_nonneg)
qed

lemma length_softmax: "length (softmax v) = length v"
  by (simp add: softmax_def)

lemma sum_list_softmax: "v \<noteq> [] \<Longrightarrow> sum_list (softmax v) = 1"
  using sum_list_exp_pos [of v] by (simp add: softmax_def sum_list_map_divide)

lemma softmax_pos: "v \<noteq> [] \<Longrightarrow> z \<in> set (softmax v) \<Longrightarrow> 0 < z"
  using sum_list_exp_pos [of v] by (auto simp add: softmax_def)

lemma nth_softmax:
  "k < length v \<Longrightarrow> softmax v ! k = exp (v ! k) / (\<Sum>j<length v. exp (v ! j))"
  by (simp add: softmax_def sum_list_nth_lessThan)

lemma rows_softmax_last: "rows (softmax_last a) = map softmax (rows a)"
  by (simp add: softmax_last_def)

subsection \<open>The E-step, row by row\<close>

lemma e_step_softmax_logits: "e_step E x mp cp = softmax_last (e_step_logits E x mp cp)"
  by (simp add: e_step_def e_step_logits_def Let_def)

lemma nrows_logits: "nrows (e_step_logits E x mp cp) = nrows x"
  by (simp add: e_step_logits_def vec_add_tensor_def compute_expec_log_lik_def tensor_sub_vec_def
      tensor_add_def einsum_nd_kd_nk_def einsum_nd_kde_ne_nk_def nrows_def Let_def
      split: prod.splits)

lemma ncols_logits:
  "nw_expected_stats E cp = (eta1, eta2, log_norm) \<Longrightarrow> ncols (e_step_logits E x mp cp) = nrows eta1"
  by (simp add: e_step_logits_def vec_add_tensor_def compute_expec_log_lik_def tensor_sub_vec_def
      tensor_add_def einsum_nd_kd_nk_def Let_def)

lemma ncols_e_step:
  "nw_expected_stats E cp = (eta1, eta2, log_norm) \<Longrightarrow> ncols (e_step E x mp cp) = nrows eta1"
  by (simp add: e_step_softmax_logits softmax_last_def ncols_logits)

lemma nrows_e_step: "nrows (e_step E x mp cp) = nrows x"
  using nrows_logits [of E x mp cp] by (simp add: e_step_softmax_logits softmax_last_def nrows_def)

lemma logits_row:
  assumes x: "has_shape x N D"
    and stats: "nw_expected_stats E cp = (eta1, eta2, log_norm)"
    and eta1: "has_shape eta1 K D" and eta2: "has_shape3 eta2 K D D"
    and ln: "length log_norm = K" and al: "length (concentration mp) = K"
    and n: "n < N"
  shows "length (rows (e_step_logits E x mp cp) ! n) = K"
    and "k < K \<Longrightarrow> rows (e_step_logits E x mp cp) ! n ! k
           = expct_log_pi_spec (torch_digamma E) (concentration mp) k
             + expec_log_lik_spec x eta1 eta2 log_norm D n k"
proof -
  have lx: "length (rows x) = N" and lxn: "length (rows x ! n) = D"
    using x n by (simp_all add: has_shape_def list_all_length)
  have l1: "length (rows eta1) = K" and l2: "length eta2 = K"
    using eta1 eta2 by (simp_all add: has_shape_def has_shape3_def)
  have row: "rows (e_step_logits E x mp cp) ! n
     = map2 (+) (compute_expct_log_pi E mp)
         (map2 (-) (map2 (+) (map (\<lambda>ak. dot (rows x ! n) ak) (rows eta1))
                             (map (\<lambda>bk. bilinear (rows x ! n) bk (rows x ! n)) eta2)) log_norm)"
    using n lx stats
    by (simp add: e_step_logits_def vec_add_tensor_def compute_expec_log_lik_def
        tensor_sub_vec_def tensor_add_def einsum_nd_kd_nk_def einsum_nd_kde_ne_nk_def Let_def)
  show "length (rows (e_step_logits E x mp cp) ! n) = K"
    using l1 l2 ln al by (simp add: row compute_expct_log_pi_def Let_def)
  assume k: "k < K"
  have r1: "length (rows eta1 ! k) = D"
    using eta1 k by (simp add: has_shape_def list_all_length)
  have m2: "length (eta2 ! k) = D" "list_all (\<lambda>r. length r = D) (eta2 ! k)"
    using eta2 k by (simp_all add: has_shape3_def list_all_length)
  have d: "dot (rows x ! n) (rows eta1 ! k) = (\<Sum>d<D. rows x ! n ! d * rows eta1 ! k ! d)"
    using lxn r1 by (rule dot_nth)
  have b: "bilinear (rows x ! n) (eta2 ! k) (rows x ! n)
           = (\<Sum>d<D. \<Sum>e<D. rows x ! n ! d * eta2 ! k ! d ! e * rows x ! n ! e)"
    using lxn m2 lxn by (rule bilinear_nth)
  show "rows (e_step_logits E x mp cp) ! n ! k
           = expct_log_pi_spec (torch_digamma E) (concentration mp) k
             + expec_log_lik_spec x eta1 eta2 log_norm D n k"
    using k l1 l2 ln al
    by (simp add: row compute_expct_log_pi_def Let_def d b expct_log_pi_spec_def
        expec_log_lik_spec_def sum_list_nth_lessThan)
qed

subsection \<open>The sample inputs have the shapes the theorems ask for\<close>

lemma shape_x_two_rows: "has_shape x_two_rows 2 1"
  by (simp add: x_two_rows_def has_shape_def)

lemma test_stats:
  "nw_expected_stats test_externals test_component_posteriors
   = (Tensor2 1 [[0], [1]], [[[- 1]], [[- 2]]], [0, 1])"
  by (simp add: test_externals_def test_component_posteriors_def)

lemma shape_test_eta1: "has_shape (Tensor2 1 [[0], [1]]) 2 1"
  by (simp add: has_shape_def)

lemma shape_test_eta2: "has_shape3 [[[- 1]], [[- 2]]] 2 1 1"
  by (simp add: has_shape3_def)

lemma shape_test_r_nk: "has_shape test_r_nk 2 2"
  by (simp add: has_shape_def test_r_nk_def)

lemma length_test_mixing: "length (concentration test_mixing_posterior) = 2"
  by (simp add: test_mixing_posterior_def)

subsection \<open>The M-step\<close>

text \<open>
  Claim C5. For a mixing prior with concentration vector \<open>alpha\<close> of length \<open>K\<close> and a
  responsibility matrix \<open>r_nk\<close> of shape \<open>(N, K)\<close>, the mixing posterior returned by
  \<open>m_step\<close> has the concentration vector \<open>alpha\<close> plus the column sums of \<open>r_nk\<close>, and the
  component posteriors are \<open>component_prior.posterior(x, r_nk)\<close>.
\<close>

theorem m_step_dirichlet_update:
  assumes "has_shape r_nk N K" and "length (concentration prior) = K"
  shows "length (concentration (fst (m_step E x r_nk prior cp))) = K
       \<and> (\<forall>k<K. concentration (fst (m_step E x r_nk prior cp)) ! k
                  = concentration prior ! k + (\<Sum>n<N. rows r_nk ! n ! k))
       \<and> snd (m_step E x r_nk prior cp) = nw_posterior E cp x r_nk"
  using assms by (simp add: m_step_def Let_def length_sum0 nth_sum0)

theorem m_step_dirichlet_update_witness:
  "has_shape test_r_nk 2 2 \<and> length (concentration test_mixing_posterior) = 2
   \<and> concentration (fst (m_step test_externals x_two_rows test_r_nk test_mixing_posterior
                        test_component_posteriors)) ! 1
     = concentration test_mixing_posterior ! 1 + (\<Sum>n<2. rows test_r_nk ! n ! 1)"
  using m_step_dirichlet_update [OF shape_test_r_nk length_test_mixing,
      of test_externals x_two_rows test_component_posteriors]
    shape_test_r_nk length_test_mixing
  by simp

subsection \<open>The E-step\<close>

text \<open>
  Claim C4. For data \<open>x\<close> of shape \<open>(N, D)\<close>, a mixing posterior with concentration vector of
  length \<open>K\<close> and component posteriors whose expected statistics have the shapes
  \<open>(K, D)\<close>, \<open>(K, D, D)\<close> and \<open>(K)\<close>, entry \<open>(n, k)\<close> of the result of \<open>e_step\<close> is the softmax
  over the component axis of \<open>expct_log_pi + expec_log_lik\<close>, with the two terms given by
  the formulas of the specification.
\<close>

theorem e_step_softmax_formula:
  assumes "has_shape x N D"
    and "nw_expected_stats E cp = (eta1, eta2, log_norm)"
    and "has_shape eta1 K D" and "has_shape3 eta2 K D D"
    and "length log_norm = K" and "length (concentration mp) = K"
    and "n < N" and "k < K"
  shows "rows (e_step E x mp cp) ! n ! k
         = exp (expct_log_pi_spec (torch_digamma E) (concentration mp) k
                + expec_log_lik_spec x eta1 eta2 log_norm D n k)
           / (\<Sum>j<K. exp (expct_log_pi_spec (torch_digamma E) (concentration mp) j
                            + expec_log_lik_spec x eta1 eta2 log_norm D n j))"
proof -
  let ?L = "rows (e_step_logits E x mp cp) ! n"
  have nl: "n < length (rows (e_step_logits E x mp cp))"
    using nrows_logits [of E x mp cp] assms(1,7) by (simp add: nrows_def has_shape_def)
  have len: "length ?L = K"
    using assms(1-7) by (rule logits_row(1))
  have ent: "?L ! j = expct_log_pi_spec (torch_digamma E) (concentration mp) j
                      + expec_log_lik_spec x eta1 eta2 log_norm D n j" if "j < K" for j
    using assms(1-7) that by (rule logits_row(2))
  have "rows (e_step E x mp cp) ! n ! k = softmax ?L ! k"
    using nl by (simp add: e_step_softmax_logits rows_softmax_last)
  also have "\<dots> = exp (?L ! k) / (\<Sum>j<K. exp (?L ! j))"
    using nth_softmax [of k ?L] len assms(8) by simp
  also have "(\<Sum>j<K. exp (?L ! j))
      = (\<Sum>j<K. exp (expct_log_pi_spec (torch_digamma E) (concentration mp) j
                            + expec_log_lik_spec x eta1 eta2 log_norm D n j))"
    by (intro sum.cong refl) (simp add: ent)
  finally show ?thesis
    using assms(8) by (simp add: ent)
qed

theorem e_step_softmax_formula_witness:
  "has_shape x_two_rows 2 1 \<and> has_shape (Tensor2 1 [[0], [1]]) 2 1
   \<and> has_shape3 [[[- 1]], [[- 2]]] 2 1 1 \<and> (1::nat) < 2
   \<and> rows (e_step test_externals x_two_rows test_mixing_posterior test_component_posteriors)
        ! 1 ! 1
     = exp (expct_log_pi_spec (torch_digamma test_externals)
              (concentration test_mixing_posterior) 1
            + expec_log_lik_spec x_two_rows (Tensor2 1 [[0], [1]]) [[[- 1]], [[- 2]]] [0, 1] 1 1 1)
       / (\<Sum>j<2. exp (expct_log_pi_spec (torch_digamma test_externals)
                        (concentration test_mixing_posterior) j
                      + expec_log_lik_spec x_two_rows (Tensor2 1 [[0], [1]]) [[[- 1]], [[- 2]]]
                          [0, 1] 1 1 j))"
proof -
  have k: "(1::nat) < 2" by simp
  have l: "length [0, 1::real] = 2" by simp
  show ?thesis
    using e_step_softmax_formula [OF shape_x_two_rows test_stats shape_test_eta1 shape_test_eta2
        l length_test_mixing k k]
      shape_x_two_rows shape_test_eta1 shape_test_eta2 k
    by blast
qed

text \<open>
  Claim C7. For data with \<open>N\<close> rows and component posteriors with \<open>K \<ge> 1\<close> components, the
  result of \<open>e_step\<close> has shape \<open>(N, K)\<close>, every entry is non-negative and every row sums
  to one.
\<close>

theorem e_step_rows_normalised:
  assumes "has_shape x N D"
    and "nw_expected_stats E cp = (eta1, eta2, log_norm)"
    and "has_shape eta1 K D" and "has_shape3 eta2 K D D"
    and "length log_norm = K" and "length (concentration mp) = K"
    and "1 \<le> K"
  shows "has_shape (e_step E x mp cp) N K
       \<and> (\<forall>n<N. (\<forall>k<K. 0 \<le> rows (e_step E x mp cp) ! n ! k)
                \<and> sum_list (rows (e_step E x mp cp) ! n) = 1)"
proof -
  have nr: "length (rows (e_step_logits E x mp cp)) = N"
    using nrows_logits [of E x mp cp] assms(1) by (simp add: nrows_def has_shape_def)
  have len: "length (rows (e_step_logits E x mp cp) ! n) = K" if "n < N" for n
    using assms(1-6) that by (rule logits_row(1))
  have row: "rows (e_step E x mp cp) ! n = softmax (rows (e_step_logits E x mp cp) ! n)"
    if "n < N" for n
    using that nr by (simp add: e_step_softmax_logits rows_softmax_last)
  have nc: "ncols (e_step E x mp cp) = K"
    using ncols_e_step [OF assms(2)] assms(3) by (simp add: nrows_def has_shape_def)
  have shp: "has_shape (e_step E x mp cp) N K"
    using nr nc len
    by (simp add: has_shape_def e_step_softmax_logits rows_softmax_last list_all_length
        length_softmax)
  have norm: "(\<forall>k<K. 0 \<le> rows (e_step E x mp cp) ! n ! k)
              \<and> sum_list (rows (e_step E x mp cp) ! n) = 1" if n: "n < N" for n
  proof -
    let ?L = "rows (e_step_logits E x mp cp) ! n"
    have ne: "?L \<noteq> []"
      using len [OF n] assms(7) by auto
    have "0 \<le> softmax ?L ! k" if "k < K" for k
    proof -
      have "softmax ?L ! k \<in> set (softmax ?L)"
        using that len [OF n] by (simp add: length_softmax)
      then show ?thesis
        using softmax_pos [OF ne] by (simp add: less_imp_le)
    qed
    moreover have "sum_list (softmax ?L) = 1"
      using ne by (rule sum_list_softmax)
    ultimately show ?thesis
      by (simp add: row [OF n])
  qed
  show ?thesis
    using shp norm by blast
qed

theorem e_step_rows_normalised_witness:
  "has_shape x_two_rows 2 1 \<and> has_shape (Tensor2 1 [[0], [1]]) 2 1
   \<and> has_shape3 [[[- 1]], [[- 2]]] 2 1 1 \<and> (1::nat) \<le> 2
   \<and> has_shape (e_step test_externals x_two_rows test_mixing_posterior
                  test_component_posteriors) 2 2
   \<and> sum_list (rows (e_step test_externals x_two_rows test_mixing_posterior
                        test_component_posteriors) ! 0) = 1
   \<and> 0 \<le> rows (e_step test_externals x_two_rows test_mixing_posterior
                  test_component_posteriors) ! 0 ! 1"
proof -
  have k: "(1::nat) \<le> 2" by simp
  have l: "length [0, 1::real] = 2" by simp
  show ?thesis
    using e_step_rows_normalised [OF shape_x_two_rows test_stats shape_test_eta1 shape_test_eta2
        l length_test_mixing k]
      shape_x_two_rows shape_test_eta1 shape_test_eta2
    by simp
qed

subsection \<open>The loop of \<open>run_vem\<close>\<close>

lemma vem_r_shift:
  "vem_r E x gmm r0 (Suc i)
   = vem_r E x gmm
       (case m_step E x r0 (mixing_prior gmm) (component_prior gmm) of
          (mp, cp) \<Rightarrow> e_step E x mp cp) i"
  by (induction i) (simp_all split: prod.splits)

lemma vem_loop_Suc:
  "vem_loop E x gmm (Suc n) (r0, p)
   = (vem_r E x gmm r0 (Suc n),
      Some (m_step E x (vem_r E x gmm r0 n) (mixing_prior gmm) (component_prior gmm)))"
proof (induction n arbitrary: r0 p)
  case 0
  show ?case by (simp split: prod.splits)
next
  case (Suc n)
  obtain mp cp where m: "m_step E x r0 (mixing_prior gmm) (component_prior gmm) = (mp, cp)"
    by (cases "m_step E x r0 (mixing_prior gmm) (component_prior gmm)")
  have "vem_loop E x gmm (Suc (Suc n)) (r0, p)
        = vem_loop E x gmm (Suc n) (e_step E x mp cp, Some (mp, cp))"
    by (simp add: m)
  also have "\<dots> = (vem_r E x gmm (e_step E x mp cp) (Suc n),
      Some (m_step E x (vem_r E x gmm (e_step E x mp cp) n)
              (mixing_prior gmm) (component_prior gmm)))"
    by (rule Suc.IH)
  also have "vem_r E x gmm (e_step E x mp cp) (Suc n) = vem_r E x gmm r0 (Suc (Suc n))"
    using vem_r_shift [of E x gmm r0 "Suc n"] by (simp add: m)
  also have "vem_r E x gmm (e_step E x mp cp) n = vem_r E x gmm r0 (Suc n)"
    using vem_r_shift [of E x gmm r0 n] by (simp add: m)
  finally show ?case .
qed

text \<open>
  Claim C6. For \<open>n_iter \<ge> 1\<close> (and \<open>K \<ge> 1\<close> components), \<open>run_vem\<close> draws the initial
  responsibilities once from the Dirichlet with \<open>K\<close> ones, one sample per data row, builds
  the prior with \<open>init(K, D, 0.05 / K, 0.5, 0, D + 0.5, D + 0.5)\<close>, and returns, wrapped by
  \<open>from_priors\<close>, the posteriors of the M-step of sweep \<open>n_iter\<close>. That M-step reads the
  responsibilities after \<open>n_iter - 1\<close> sweeps: the responsibilities of the last E-step,
  \<open>vem_r \<dots> n_iter\<close>, which the loop does compute (\<open>vem_loop_Suc\<close>), do not occur in the
  result. The generator state returned is the one after the single draw.
\<close>

theorem run_vem_last_m_step:
  assumes "1 \<le> n_iter" and "1 \<le> K"
  shows "run_vem E x K n_iter g =
     (case dirichlet_sample E (replicate K 1) (nrows x) g of (r0, g') \<Rightarrow>
        let gmm = natural_gmm_init E K (ncols x) (0.05 / real K) 0.5 0
                    (real (ncols x) + 0.5) (real (ncols x) + 0.5)
        in case m_step E x (vem_r E x gmm r0 (nat n_iter - 1))
                  (mixing_prior gmm) (component_prior gmm) of
             (mixing_posterior, component_posteriors) \<Rightarrow>
               Inr (from_priors mixing_posterior component_posteriors, g'))"
proof -
  obtain n where n: "nat n_iter = Suc n"
    using assms(1) by (cases "nat n_iter") auto
  show ?thesis
    using assms(2)
    by (simp add: run_vem_def shape_def n vem_loop_Suc Let_def del: vem_loop.simps
        split: prod.splits)
qed

theorem run_vem_last_m_step_witness:
  "(1::int) \<le> 1 \<and> (1::nat) \<le> 2
   \<and> run_vem test_externals x_two_rows 2 1 0 =
     (case dirichlet_sample test_externals (replicate 2 1) (nrows x_two_rows) 0 of (r0, g') \<Rightarrow>
        let gmm = natural_gmm_init test_externals 2 (ncols x_two_rows) (0.05 / real 2) 0.5 0
                    (real (ncols x_two_rows) + 0.5) (real (ncols x_two_rows) + 0.5)
        in case m_step test_externals x_two_rows (vem_r test_externals x_two_rows gmm r0 (nat 1 - 1))
                  (mixing_prior gmm) (component_prior gmm) of
             (mixing_posterior, component_posteriors) \<Rightarrow>
               Inr (from_priors mixing_posterior component_posteriors, g'))"
proof -
  have a: "(1::int) \<le> 1" and b: "(1::nat) \<le> 2" by simp_all
  show ?thesis
    using run_vem_last_m_step [OF a b, of test_externals x_two_rows 0] by simp
qed

text \<open>
  Claim C2. With zero iterations \<open>run_vem\<close> should return the freshly initialised prior,
  wrapped. The code does not: the loop body never runs, so the two posterior variables
  are unbound when the return statement reads them, and the call raises.
\<close>

theorem run_vem_no_iteration_unbound:
  assumes "n_iter \<le> 0" and "1 \<le> K"
  shows "run_vem E x K n_iter g = Inl (UnboundLocalError ''mixing_posterior'')"
  using assms by (simp add: run_vem_def shape_def Let_def split: prod.splits)

theorem run_vem_no_iteration_unbound_witness:
  "(0::int) \<le> 0 \<and> (1::nat) \<le> 2
   \<and> run_vem test_externals x_two_rows 2 0 0 = Inl (UnboundLocalError ''mixing_posterior'')"
proof -
  have a: "(0::int) \<le> 0" and b: "(1::nat) \<le> 2" by simp_all
  show ?thesis
    using run_vem_no_iteration_unbound [OF a b, of test_externals x_two_rows 0] by simp
qed

subsection \<open>\<open>inference\<close>\<close>

lemma unpack2_nrows:
  "unpack2 t =
     (if nrows t = 2 then Inr (rows t ! 0, rows t ! 1)
      else if nrows t < 2 then Inl (ValueError_not_enough_values 2 (nrows t))
      else Inl (ValueError_too_many_values 2))"
  by (auto simp add: unpack2_def nrows_def split: list.splits)

lemma inference_eq:
  "inference E x K g =
     (if K = 0 then Inl ZeroDivisionError
      else if nrows x = 2 then Inr (PyNone, snd (dirichlet_sample E (replicate K 1) (nrows x) g))
      else if nrows x < 2 then Inl (ValueError_not_enough_values 2 (nrows x))
      else Inl (ValueError_too_many_values 2))"
  by (simp add: inference_def shape_def Let_def unpack2_nrows nrows_e_step split: prod.splits)

text \<open>
  Claim C3. For data of shape \<open>(N, D)\<close> and \<open>K \<ge> 1\<close>, \<open>inference\<close> binds \<open>pi\<close> by unpacking
  the \<open>N\<close> rows of the responsibility tensor that \<open>e_step\<close> returns: the call raises a
  length-mismatch unpacking error, never an undefined-name error, whenever \<open>N \<noteq> 2\<close>, and
  for \<open>N = 2\<close> it completes and returns \<open>None\<close>.
\<close>

theorem inference_unpacks_e_step:
  assumes "1 \<le> K"
  shows "(nrows x \<noteq> 2 \<longrightarrow>
            inference E x K g =
              Inl (if nrows x < 2 then ValueError_not_enough_values 2 (nrows x)
                   else ValueError_too_many_values 2))
       \<and> (nrows x = 2 \<longrightarrow>
            inference E x K g = Inr (PyNone, snd (dirichlet_sample E (replicate K 1) 2 g)))
       \<and> inference E x K g \<noteq> Inl (NameError name)"
  using assms by (simp add: inference_eq)

theorem inference_unpacks_e_step_witness:
  "(1::nat) \<le> 3 \<and> nrows x_three_rows \<noteq> 2 \<and> nrows x_two_rows = 2
   \<and> inference test_externals x_three_rows 3 0 = Inl (ValueError_too_many_values 2)
   \<and> inference test_externals x_two_rows 3 0 = Inr (PyNone, 1)"
proof -
  have a: "(1::nat) \<le> 3" by simp
  have n3: "nrows x_three_rows = 3" and n2: "nrows x_two_rows = 2"
    by (simp_all add: nrows_def x_three_rows_def x_two_rows_def)
  have s: "snd (dirichlet_sample test_externals (replicate 3 1) 2 0) = 1"
    by (simp add: test_externals_def)
  show ?thesis
    using inference_unpacks_e_step [OF a, of x_three_rows test_externals 0]
      inference_unpacks_e_step [OF a, of x_two_rows test_externals 0] n3 n2 s
    by simp
qed

text \<open>
  Claim C1, as stated: for every valid data matrix, \<open>inference(x, 2)\<close> fails with an
  undefined-reference error on the name \<open>pi\<close>. On three data rows the call fails with an
  unpacking error instead.
\<close>

theorem inference_name_error_counterexample:
  "inference test_externals x_three_rows 2 0 = Inl (ValueError_too_many_values 2)
   \<and> inference test_externals x_three_rows 2 0 \<noteq> Inl (NameError ''pi'')"
  by (simp add: inference_eq nrows_def x_three_rows_def)

text \<open>
  Claim C1, amended: \<open>inference(x, 2)\<close> never fails with an undefined-reference error on
  \<open>pi\<close>, which is bound as the second target of the unpacking of the result of \<open>e_step\<close>;
  for \<open>N \<noteq> 2\<close> data rows the call fails with an unpacking length-mismatch error, and for
  \<open>N = 2\<close> it returns \<open>None\<close>.
\<close>

theorem inference_two_components:
  "inference E x 2 g \<noteq> Inl (NameError ''pi'')
   \<and> (nrows x \<noteq> 2 \<longrightarrow>
        inference E x 2 g =
          Inl (if nrows x < 2 then ValueError_not_enough_values 2 (nrows x)
               else ValueError_too_many_values 2))
   \<and> (nrows x = 2 \<longrightarrow>
        inference E x 2 g = Inr (PyNone, snd (dirichlet_sample E (replicate 2 1) 2 g)))"
  by (simp add: inference_eq)

theorem inference_two_components_witness:
  "nrows (Tensor2 2 [[1, 2]]) \<noteq> 2
   \<and> inference test_externals (Tensor2 2 [[1, 2]]) 2 5 = Inl (ValueError_not_enough_values 2 1)"
proof -
  have n: "nrows (Tensor2 2 [[1, 2]]) = 1"
    by (simp add: nrows_def)
  show ?thesis
    using inference_two_components [of test_externals "Tensor2 2 [[1, 2]]" 5] n by simp
qed

section \<open>Properties of the conditional structural causal model\<close>

subsection \<open>The constraint transform of the age flow\<close>

lemma age_constraint_init:
  "age_flow_constraint_transforms (ConditionalVISEM_init base spline vn bn)
   = ComposeTransform [AffineTransform 0 1, ExpTransform]"
  by (simp add: ConditionalVISEM_init_def Let_def BaseVISEM.extend_def ConditionalVISEM.fields_def)

text \<open>
  Claim C8. The constraint transform of the age flow is the affine transform with
  location \<open>0\<close> and scale \<open>1\<close> followed by the exponential. Every value it produces is
  positive, and for every positive age value, the constraint transform applied to its own
  inverse of that value gives the value back.
\<close>

theorem age_constraint_round_trip:
  assumes "0 < v"
  shows "transform_call (age_flow_constraint_transforms (ConditionalVISEM_init base spline vn bn))
           (transform_inv (age_flow_constraint_transforms (ConditionalVISEM_init base spline vn bn)) v)
         = v
       \<and> 0 < transform_call
               (age_flow_constraint_transforms (ConditionalVISEM_init base spline vn bn)) u"
  using assms by (simp add: age_constraint_init)

theorem age_constraint_round_trip_witness:
  "(0::real) < 2
   \<and> transform_call (age_flow_constraint_transforms (ConditionalVISEM_init test_base () () ()))
        (transform_inv (age_flow_constraint_transforms (ConditionalVISEM_init test_base () () ())) 2)
     = 2"
proof -
  have p: "(0::real) < 2" by simp
  show ?thesis
    using age_constraint_round_trip [OF p, of test_base "()" "()" "()" 0] by simp
qed

text \<open>The same on a whole tensor of positive ages, as \<open>pgm_model\<close> applies the inverse.\<close>

lemma age_constraint_round_trip_tensor:
  assumes "list_all (list_all (\<lambda>v. 0 < v)) (rows age)"
  shows "tensor_map
           (transform_call (age_flow_constraint_transforms (ConditionalVISEM_init base spline vn bn)))
           (tensor_map
              (transform_inv (age_flow_constraint_transforms (ConditionalVISEM_init base spline vn bn)))
              age)
         = age"
proof -
  have "map (map (\<lambda>v. exp (ln v))) (rows age) = rows age"
    using assms by (intro map_idI) (auto simp add: list_all_iff)
  then show ?thesis
    by (cases age) (simp add: tensor_map_def age_constraint_init comp_def)
qed

subsection \<open>The structural prior graph\<close>

text \<open>
  Claim C9. In \<open>pgm_model\<close> the distribution recorded at the site \<open>age\<close> is built from
  \<open>age_base_loc\<close>, \<open>age_base_scale\<close> and the age flow only. It is the same in any two runs
  of the same model, whatever the two runtimes return at the site \<open>sex\<close> or anywhere else.
  The site \<open>sex\<close> is drawn from the Bernoulli on \<open>sex_logits\<close>, and the two volume sites are
  conditioned on the context made of the sampled sex and the unconstrained age.
\<close>

theorem age_dist_independent_of_sex:
  "site_dist (fst (snd (pgm_model self S ([], g)))) ''age''
     = Some (TransformedDistribution (ToEvent (Normal (age_base_loc self) (age_base_scale self)) 1)
               (age_flow_transforms self))
   \<and> site_dist (fst (snd (pgm_model self S ([], g)))) ''age''
     = site_dist (fst (snd (pgm_model self S' ([], g')))) ''age''
   \<and> site_dist (fst (snd (pgm_model self S ([], g)))) ''sex''
     = Some (ToEvent (Bernoulli (sex_logits self)) 1)
   \<and> (\<exists>sex age context.
        site_value (fst (snd (pgm_model self S ([], g)))) ''sex'' = Some sex
      \<and> site_value (fst (snd (pgm_model self S ([], g)))) ''age'' = Some age
      \<and> context = cat1 sex (tensor_map (transform_inv (age_flow_constraint_transforms self)) age)
      \<and> site_dist (fst (snd (pgm_model self S ([], g)))) ''ventricle_volume''
          = Some (Condition (ConditionalTransformedDistribution
                    (ToEvent (Normal (ventricle_volume_base_loc self)
                                (ventricle_volume_base_scale self)) 1)
                    (ventricle_volume_flow_transforms self)) context)
      \<and> site_dist (fst (snd (pgm_model self S ([], g)))) ''brain_volume''
          = Some (Condition (ConditionalTransformedDistribution
                    (ToEvent (Normal (brain_volume_base_loc self)
                                (brain_volume_base_scale self)) 1)
                    (brain_volume_flow_transforms self)) context))"
  by (simp add: pgm_model_def pyro_sample_def Let_def site_dist_def site_value_def
      case_prod_beta)

text \<open>
  Two runs that differ in the sampled sex only: the age site has the same distribution,
  the ventricle-volume site has not.
\<close>

theorem age_dist_independent_of_sex_witness:
  "site_dist (fst (snd (pgm_model (ConditionalVISEM_init test_base () () ())
                          (test_sampler 0) ([], 0)))) ''age''
     = site_dist (fst (snd (pgm_model (ConditionalVISEM_init test_base () () ())
                              (test_sampler 1) ([], 0)))) ''age''
   \<and> site_value (fst (snd (pgm_model (ConditionalVISEM_init test_base () () ())
                             (test_sampler 0) ([], 0)))) ''sex''
     \<noteq> site_value (fst (snd (pgm_model (ConditionalVISEM_init test_base () () ())
                                (test_sampler 1) ([], 0)))) ''sex''
   \<and> site_dist (fst (snd (pgm_model (ConditionalVISEM_init test_base () () ())
                            (test_sampler 0) ([], 0)))) ''ventricle_volume''
     \<noteq> site_dist (fst (snd (pgm_model (ConditionalVISEM_init test_base () () ())
                               (test_sampler 1) ([], 0)))) ''ventricle_volume''"
proof -
  have "site_dist (fst (snd (pgm_model (ConditionalVISEM_init test_base () () ())
                          (test_sampler 0) ([], 0)))) ''age''
     = site_dist (fst (snd (pgm_model (ConditionalVISEM_init test_base () () ())
                              (test_sampler 1) ([], 0)))) ''age''"
    using age_dist_independent_of_sex
      [of "ConditionalVISEM_init test_base () () ()" "test_sampler 0" 0 "test_sampler 1" 0]
    by blast
  moreover have "site_value (fst (snd (pgm_model (ConditionalVISEM_init test_base () () ())
                             (test_sampler 0) ([], 0)))) ''sex''
     \<noteq> site_value (fst (snd (pgm_model (ConditionalVISEM_init test_base () () ())
                                (test_sampler 1) ([], 0)))) ''sex''"
    by (simp add: pgm_model_def pyro_sample_def Let_def site_value_def test_sampler_def)
  moreover have "site_dist (fst (snd (pgm_model (ConditionalVISEM_init test_base () () ())
                            (test_sampler 0) ([], 0)))) ''ventricle_volume''
     \<noteq> site_dist (fst (snd (pgm_model (ConditionalVISEM_init test_base () () ())
                               (test_sampler 1) ([], 0)))) ''ventricle_volume''"
    by (simp add: pgm_model_def pyro_sample_def Let_def site_dist_def test_sampler_def cat1_def
        tensor_map_def)
  ultimately show ?thesis
    by blast
qed

subsection \<open>The model registry\<close>

text \<open>
  Claim C10. After the module is loaded, \<open>MODEL_REGISTRY['ConditionalVISEM']\<close> is the class
  \<open>ConditionalVISEM\<close> and every other entry is as before; loading registers the class
  under one key, and doing it again changes nothing. Constructing instances, once or
  twice, leaves the registry as the load left it.
\<close>

theorem registry_after_load:
  "load_conditional_sem reg ''ConditionalVISEM'' = Some ConditionalVISEM_class
   \<and> (\<forall>k. k \<noteq> ''ConditionalVISEM'' \<longrightarrow> load_conditional_sem reg k = reg k)
   \<and> snd (ConditionalVISEM_new base sp vn bn (load_conditional_sem reg)) = load_conditional_sem reg
   \<and> snd (ConditionalVISEM_new base' sp' vn' bn'
            (snd (ConditionalVISEM_new base sp vn bn (load_conditional_sem reg))))
       = load_conditional_sem reg
   \<and> load_conditional_sem (load_conditional_sem reg) = load_conditional_sem reg"
  by (simp add: load_conditional_sem_def ConditionalVISEM_class_def ConditionalVISEM_new_def)

theorem registry_after_load_witness:
  "''IndependentVISEM'' \<noteq> ''ConditionalVISEM''
   \<and> load_conditional_sem test_registry ''IndependentVISEM''
       = Some (ModelClass ''experiments.medical.ukbb.sem_vi.independent_sem'' ''IndependentVISEM'')
   \<and> load_conditional_sem test_registry ''ConditionalVISEM'' = Some ConditionalVISEM_class
   \<and> snd (ConditionalVISEM_new test_base () () ()
            (snd (ConditionalVISEM_new test_base () () () (load_conditional_sem test_registry))))
        ''ConditionalVISEM''
       = Some ConditionalVISEM_class"
proof -
  have k: "''IndependentVISEM'' \<noteq> ''ConditionalVISEM''" by simp
  have r: "test_registry ''IndependentVISEM''
           = Some (ModelClass ''experiments.medical.ukbb.sem_vi.independent_sem''
                     ''IndependentVISEM'')"
    by (simp add: test_registry_def)
  show ?thesis
    using registry_after_load [of test_registry test_base "()" "()" "()" test_base "()" "()" "()"]
      k r
    by simp
qed

end
